theory Spec2Isabelle
  imports Main "HOL-Library.Word"
begin

section \<open>Data model (app/models.py, app/config.py)\<close>

text \<open>
  The task table of \<^verbatim>\<open>app/models.py\<close>: the status enumeration and one record per row.
  Timestamps are milliseconds on the engine's clock. The columns \<^verbatim>\<open>payload\<close> and
  \<^verbatim>\<open>result\<close> hold JSON text; \<^verbatim>\<open>error_message\<close> holds plain text.
\<close>

datatype TaskStatus = PENDING | PROCESSING | COMPLETED | FAILED | RETRYING

text \<open>
  The values Python's \<^verbatim>\<open>json\<close> module decodes to and encodes from. An object is the
  item list of a Python dict in insertion order; a float is carried as its 64 bits, the
  code never computes with one.
\<close>

datatype json =
    JNull
  | JBool bool
  | JInt int
  | JFloat "64 word"
  | JStr string
  | JArr "json list"
  | JObj "(string \<times> json) list"

text \<open>
  A JSON text column, read up to decoding: a text is either the encoding of a value
  (what \<^verbatim>\<open>json.dumps\<close> writes and \<^verbatim>\<open>json.loads\<close> reads back), or a text that
  \<^verbatim>\<open>json.loads\<close> rejects, kept with the message of its decoding error.
\<close>

datatype json_text = JsonText json | NotJson string

record Task =
  id' :: int
  task_type :: string
  payload :: json_text
  status :: TaskStatus
  result :: "json_text option"
  error_message :: "string option"
  retry_count :: int
  created_at :: nat
  updated_at :: nat
  completed_at :: "nat option"

text \<open>
  \<^verbatim>\<open>Settings\<close> of \<^verbatim>\<open>app/config.py\<close>. The pool size and the maximum of retries are read
  from the environment as Python ints; \<^verbatim>\<open>RETRY_DELAY\<close> is the constant 5, in seconds.
  \<^verbatim>\<open>settings\<close> holds the defaults.
\<close>

record Settings =
  WORKER_POOL_SIZE :: int
  MAX_RETRIES :: int
  RETRY_DELAY :: nat

definition settings :: Settings where
  "settings = \<lparr>WORKER_POOL_SIZE = 10, MAX_RETRIES = 3, RETRY_DELAY = 5\<rparr>"

text \<open>
  The exceptions the code can meet, with \<^verbatim>\<open>str(e)\<close>. \<^verbatim>\<open>HTTPException\<close> carries the
  status code and the detail.
\<close>

datatype exn =
    StoreError string
  | StaleDataError string
  | PendingRollbackError string
  | JSONDecodeError string
  | AttributeError string
  | UnboundLocalError string
  | HTTPException nat string

fun str_exn :: "exn \<Rightarrow> string" where
  "str_exn (StoreError m) = m"
| "str_exn (StaleDataError m) = m"
| "str_exn (PendingRollbackError m) = m"
| "str_exn (JSONDecodeError m) = m"
| "str_exn (AttributeError m) = m"
| "str_exn (UnboundLocalError m) = m"
| "str_exn (HTTPException c m) = m"

section \<open>The engine's world: store, queue, clock\<close>

text \<open>
  Everything a coroutine of the engine can read or change. \<^verbatim>\<open>rows\<close> is the task table
  in the store's own order, \<^verbatim>\<open>next_id\<close> its primary-key sequence, \<^verbatim>\<open>task_queue\<close> the
  \<^verbatim>\<open>asyncio.Queue\<close> of \<^verbatim>\<open>WorkerPool\<close> (oldest entry first), \<^verbatim>\<open>clock\<close> the time in
  milliseconds. \<^verbatim>\<open>outages\<close> is the environment's script for the store: each round trip
  to the store consumes one entry, \<^verbatim>\<open>Some m\<close> making that call raise with message
  \<^verbatim>\<open>m\<close>; when the script is used up every call succeeds. \<^verbatim>\<open>journal\<close> is not a variable
  of the program: it records the effects (writes to the store, queue operations, pauses)
  in the order they happen, so that statements about that order can be made.
\<close>

datatype effect = Commit Task | Insert Task | Delete int | Put int | Get int | Sleep nat

record world =
  rows :: "Task list"
  next_id :: int
  task_queue :: "int list"
  clock :: nat
  outages :: "string option list"
  journal :: "effect list"

definition utcnow :: "world \<Rightarrow> nat" where
  "utcnow w = clock w"

text \<open>\<^verbatim>\<open>await asyncio.sleep(d)\<close>, with \<^verbatim>\<open>d\<close> in milliseconds.\<close>

definition sleep :: "nat \<Rightarrow> world \<Rightarrow> world" where
  "sleep d w = w\<lparr>clock := clock w + d, journal := journal w @ [Sleep d]\<rparr>"

text \<open>\<^verbatim>\<open>await self.task_queue.put(k)\<close>: the queue is unbounded, so the call never blocks.\<close>

definition put :: "int \<Rightarrow> world \<Rightarrow> world" where
  "put k w = w\<lparr>task_queue := task_queue w @ [k], journal := journal w @ [Put k]\<rparr>"

subsection \<open>The Task Store\<close>

text \<open>
  Modelled from the spec: the session factory \<^verbatim>\<open>app.database.async_session_maker\<close> and
  the store behind it are not among the sources. The spec's Task Store interface
  (\<^verbatim>\<open>getTask(id)\<close>, \<^verbatim>\<open>listPending(limit)\<close>, \<^verbatim>\<open>updateTaskStatus(id, fields)\<close>,
  \<^verbatim>\<open>createTask\<close>) is modelled as follows. A worker holds an in-flight copy of the row it
  loaded; \<^verbatim>\<open>session.commit()\<close> writes that copy back over the row with the same
  identifier, and raises \<^verbatim>\<open>StaleDataError\<close> when the table has no such row any more. A
  store call that fails (store unreachable, timeout) raises and writes nothing. A negative
  \<^verbatim>\<open>LIMIT\<close> is an error of the query, as in PostgreSQL, the store \<^verbatim>\<open>app/config.py\<close>
  names.

  The session is the \<^verbatim>\<open>AsyncSession\<close> that \<^verbatim>\<open>app/worker.py\<close> imports. A session whose
  commit has raised is inactive until \<^verbatim>\<open>rollback()\<close> is called on it: every further use of
  it, reading an attribute of its task included, raises \<^verbatim>\<open>PendingRollbackError\<close>, and
  nothing is stored. \<^verbatim>\<open>app/worker.py\<close> never rolls a session back. Each call of
  \<^verbatim>\<open>process_task\<close> opens a session of its own, which is \<^verbatim>\<open>Active\<close> until one of its
  commits raises.

  \<^verbatim>\<open>round_trip\<close> is one call to the store: it takes the next entry of the script.
  \<^verbatim>\<open>select_task\<close> is \<^verbatim>\<open>select(Task).where(Task.id == k)\<close> with
  \<^verbatim>\<open>scalar_one_or_none()\<close>; \<^verbatim>\<open>select_pending\<close> is the query of the fetcher, the rows with
  status \<^verbatim>\<open>PENDING\<close> in table order, cut at the limit; \<^verbatim>\<open>commit\<close> is
  \<^verbatim>\<open>session.commit()\<close> on an active session for the in-flight task; \<^verbatim>\<open>commit_delete\<close> is
  \<^verbatim>\<open>db.delete(task)\<close> followed by \<^verbatim>\<open>db.commit()\<close>.
\<close>

datatype session = Active | NeedsRollback

definition stale_message :: string where
  "stale_message =
     ''UPDATE statement on table '' @ CHR 0x27 # ''tasks'' @ CHR 0x27 #
     '' expected to update 1 row(s); 0 were matched.''"

definition round_trip :: "world \<Rightarrow> string option \<times> world" where
  "round_trip w = (case outages w of [] \<Rightarrow> (None, w) | x # xs \<Rightarrow> (x, w\<lparr>outages := xs\<rparr>))"

definition write_back :: "Task \<Rightarrow> Task list \<Rightarrow> Task list" where
  "write_back t rs = map (\<lambda>r. if id' r = id' t then t else r) rs"

definition lookup :: "int \<Rightarrow> Task list \<Rightarrow> Task option" where
  "lookup k rs = find (\<lambda>r. id' r = k) rs"

definition select_task :: "int \<Rightarrow> world \<Rightarrow> (exn + Task option) \<times> world" where
  "select_task k w =
     (case round_trip w of
        (Some m, w') \<Rightarrow> (Inl (StoreError m), w')
      | (None, w') \<Rightarrow> (Inr (lookup k (rows w')), w'))"

definition select_pending :: "int \<Rightarrow> world \<Rightarrow> (exn + Task list) \<times> world" where
  "select_pending n w =
     (case round_trip w of
        (Some m, w') \<Rightarrow> (Inl (StoreError m), w')
      | (None, w') \<Rightarrow>
          if n < 0 then (Inl (StoreError ''LIMIT must not be negative''), w')
          else (Inr (take (nat n) (filter (\<lambda>r. status r = PENDING) (rows w'))), w'))"

definition commit :: "Task \<Rightarrow> world \<Rightarrow> exn option \<times> world" where
  "commit t w =
     (case round_trip w of
        (Some m, w') \<Rightarrow> (Some (StoreError m), w')
      | (None, w') \<Rightarrow>
          (case lookup (id' t) (rows w') of
             None \<Rightarrow> (Some (StaleDataError stale_message), w')
           | Some r \<Rightarrow>
               (None, w'\<lparr>rows := write_back t (rows w'),
                          journal := journal w' @ [Commit t]\<rparr>)))"

definition commit_delete :: "Task \<Rightarrow> world \<Rightarrow> exn option \<times> world" where
  "commit_delete t w =
     (case round_trip w of
        (Some m, w') \<Rightarrow> (Some (StoreError m), w')
      | (None, w') \<Rightarrow>
          (None, w'\<lparr>rows := filter (\<lambda>r. id' r \<noteq> id' t) (rows w'),
                     journal := journal w' @ [Delete (id' t)]\<rparr>))"

text \<open>
  \<^verbatim>\<open>db.add(new_task); await db.commit(); await db.refresh(new_task)\<close>: the store assigns
  the identifier and the column defaults of \<^verbatim>\<open>app/models.py\<close> (\<^verbatim>\<open>retry_count\<close> 0, both
  timestamps the current time, the nullable columns empty).
\<close>

definition commit_insert :: "string \<Rightarrow> json_text \<Rightarrow> TaskStatus \<Rightarrow> world \<Rightarrow> (exn + Task) \<times> world" where
  "commit_insert ty p st w =
     (case round_trip w of
        (Some m, w') \<Rightarrow> (Inl (StoreError m), w')
      | (None, w') \<Rightarrow>
          (let t = \<lparr>id' = next_id w', task_type = ty, payload = p, status = st,
                    result = None, error_message = None, retry_count = 0,
                    created_at = utcnow w', updated_at = utcnow w', completed_at = None\<rparr>
           in (Inr t, w'\<lparr>rows := rows w' @ [t], next_id := next_id w' + 1,
                          journal := journal w' @ [Insert t]\<rparr>)))"

section \<open>Execution logic (app/worker.py, execute_task)\<close>

text \<open>\<^verbatim>\<open>str(n)\<close> for a Python int.\<close>

fun digits :: "nat \<Rightarrow> string" where
  "digits n = (if n < 10 then [char_of (48 + n)] else digits (n div 10) @ [char_of (48 + n mod 10)])"

declare digits.simps [simp del]

definition str_int :: "int \<Rightarrow> string" where
  "str_int i = (if i < 0 then CHR ''-'' # digits (nat (- i)) else digits (nat i))"

fun json_loads :: "json_text \<Rightarrow> exn + json" where
  "json_loads (JsonText v) = Inr v"
| "json_loads (NotJson m) = Inl (JSONDecodeError m)"

definition json_dumps :: "json \<Rightarrow> json_text" where
  "json_dumps v = JsonText v"

fun type_name :: "json \<Rightarrow> string" where
  "type_name JNull = ''NoneType''"
| "type_name (JBool b) = ''bool''"
| "type_name (JInt i) = ''int''"
| "type_name (JFloat x) = ''float''"
| "type_name (JStr s) = ''str''"
| "type_name (JArr xs) = ''list''"
| "type_name (JObj kvs) = ''dict''"

text \<open>
  \<^verbatim>\<open>payload.get(key, default)\<close>: only a dict has the method; on any other decoded value
  the attribute lookup raises \<^verbatim>\<open>AttributeError\<close>.
\<close>

fun payload_get :: "json \<Rightarrow> string \<Rightarrow> json \<Rightarrow> exn + json" where
  "payload_get (JObj kvs) key dflt = Inr (case map_of kvs key of None \<Rightarrow> dflt | Some v \<Rightarrow> v)"
| "payload_get v key dflt =
     Inl (AttributeError (CHR 0x27 # type_name v @ CHR 0x27 # '' object has no attribute '' @ CHR 0x27 # ''get'' @ [CHR 0x27]))"

definition execute_task :: "Task \<Rightarrow> world \<Rightarrow> (exn + json) \<times> world" where
  "execute_task task w =
     (case json_loads (payload task) of
        Inl e \<Rightarrow> (Inl e, w)
      | Inr p \<Rightarrow>
          if task_type task = ''email'' then
            (let w1 = sleep 100 w in
             case payload_get p ''email'' JNull of
               Inl e \<Rightarrow> (Inl e, w1)
             | Inr v \<Rightarrow> (Inr (JObj [(''status'', JStr ''email_sent''), (''to'', v)]), w1))
          else if task_type task = ''data_processing'' then
            (let w1 = sleep 100 w in
             case payload_get p ''count'' (JInt 100) of
               Inl e \<Rightarrow> (Inl e, w1)
             | Inr v \<Rightarrow> (Inr (JObj [(''status'', JStr ''processed''), (''records'', v)]), w1))
          else if task_type task = ''report_generation'' then
            (let w1 = sleep 500 w in
             (Inr (JObj [(''status'', JStr ''generated''),
                         (''report_id'', JStr (''RPT-'' @ str_int (id' task)))]), w1))
          else
            (let w1 = sleep 100 w in
             (Inr (JObj [(''status'', JStr ''completed''), (''data'', p)]), w1)))"

section \<open>Retry controller (app/worker.py, handle_task_failure)\<close>

text \<open>
  Lines 158 to 165: the retry branch up to and including the re-enqueue. The result is
  the in-flight task and the world right after \<^verbatim>\<open>task_queue.put\<close>.
\<close>

definition retry_requeue :: "Settings \<Rightarrow> Task \<Rightarrow> world \<Rightarrow> (exn + Task) \<times> world" where
  "retry_requeue cfg task w =
     (let task1 = task\<lparr>status := RETRYING\<rparr> in
      case commit task1 w of
        (Some e, w1) \<Rightarrow> (Inl e, w1)
      | (None, w1) \<Rightarrow>
          (let w2 = sleep (1000 * RETRY_DELAY cfg) w1;
               w3 = put (id' task1) w2
           in (Inr task1, w3)))"

text \<open>
  Lines 167 to 169: back to \<^verbatim>\<open>PENDING\<close>. The flush does not assign \<^verbatim>\<open>updated_at\<close>, so
  the column's \<^verbatim>\<open>onupdate\<close> default of \<^verbatim>\<open>app/models.py\<close> stamps it.
\<close>

definition retry_reset :: "Task \<Rightarrow> world \<Rightarrow> exn option \<times> world" where
  "retry_reset task w = commit (task\<lparr>status := PENDING, updated_at := utcnow w\<rparr>) w"

text \<open>Lines 152 to 154: the failure recorded on the in-flight task.\<close>

definition record_failure :: "Task \<Rightarrow> string \<Rightarrow> world \<Rightarrow> Task" where
  "record_failure task error w =
     task\<lparr>retry_count := retry_count task + 1, error_message := Some error, updated_at := utcnow w\<rparr>"

text \<open>
  \<^verbatim>\<open>handle_task_failure(session, task, error)\<close>. The result is the exception that
  escapes, if any, and the world. On a session whose commit has raised, the first use of
  the session (the read of \<^verbatim>\<open>task.retry_count\<close> at line 152, at the latest the commit of
  line 161 or 174) raises \<^verbatim>\<open>PendingRollbackError\<close>, with the text of the first
  exception, before anything is stored, slept or enqueued. On an active session the only
  exceptions are those of the handler's own commits.
\<close>

definition handle_task_failure ::
  "Settings \<Rightarrow> session \<Rightarrow> Task \<Rightarrow> string \<Rightarrow> world \<Rightarrow> exn option \<times> world" where
  "handle_task_failure cfg session task error w =
     (case session of
        NeedsRollback \<Rightarrow> (Some (PendingRollbackError error), w)
      | Active \<Rightarrow>
          (let task1 = record_failure task error w
           in if retry_count task1 < MAX_RETRIES cfg then
                (case retry_requeue cfg task1 w of
                   (Inl e, w1) \<Rightarrow> (Some e, w1)
                 | (Inr task2, w3) \<Rightarrow> retry_reset task2 w3)
              else commit (task1\<lparr>status := FAILED\<rparr>) w))"

section \<open>Worker (app/worker.py, process_task and worker)\<close>

text \<open>
  A coroutine runs undisturbed from one \<^verbatim>\<open>await\<close> to the next, and other coroutines
  run while it waits. \<^verbatim>\<open>process_task\<close> is therefore given in three pieces, each ending
  at an \<^verbatim>\<open>await\<close> on the store: the query (lines 97 to 100, \<^verbatim>\<open>select_task\<close>), the claim
  (lines 102 to 108) and the run (lines 110 to 126).

  The claim: \<^verbatim>\<open>None\<close> when the worker returns at line 103; otherwise the in-flight task
  marked \<^verbatim>\<open>PROCESSING\<close>, with the exception of the commit of line 108 if it raised.
\<close>

definition claim_task :: "Task option \<Rightarrow> world \<Rightarrow> (Task \<times> exn option) option \<times> world" where
  "claim_task loaded w =
     (case loaded of
        None \<Rightarrow> (None, w)
      | Some task \<Rightarrow>
          if status task \<noteq> PENDING then (None, w)
          else
            (let task1 = task\<lparr>status := PROCESSING, updated_at := utcnow w\<rparr> in
             case commit task1 w of (e, w1) \<Rightarrow> (Some (task1, e), w1)))"

text \<open>
  The run of a claimed task. Every exception raised in the \<^verbatim>\<open>try\<close> body is caught by the
  one \<^verbatim>\<open>except Exception\<close> clause and handed to \<^verbatim>\<open>handle_task_failure\<close> with the
  session and the in-flight task as they are at that moment: the session is active when
  the handler raised (\<^verbatim>\<open>execute_task\<close> makes no store call) and inactive when a commit
  raised.
\<close>

definition run_claimed :: "Settings \<Rightarrow> Task \<Rightarrow> int \<Rightarrow> world \<Rightarrow> exn option \<times> world" where
  "run_claimed cfg task1 worker_id w =
     (case execute_task task1 w of
        (Inl e, w2) \<Rightarrow> handle_task_failure cfg Active task1 (str_exn e) w2
      | (Inr r, w2) \<Rightarrow>
          (let task2 = task1\<lparr>status := COMPLETED,
                              result := Some (json_dumps r),
                              completed_at := Some (utcnow w2),
                              updated_at := utcnow w2\<rparr>
           in case commit task2 w2 of
                (Some e, w3) \<Rightarrow> handle_task_failure cfg NeedsRollback task2 (str_exn e) w3
              | (None, w3) \<Rightarrow> (None, w3)))"

text \<open>Lines 102 to 126, for the task the query returned.\<close>

definition process_loaded :: "Settings \<Rightarrow> Task option \<Rightarrow> int \<Rightarrow> world \<Rightarrow> exn option \<times> world" where
  "process_loaded cfg loaded worker_id w =
     (case claim_task loaded w of
        (None, w1) \<Rightarrow> (None, w1)
      | (Some (task1, Some e), w1) \<Rightarrow> handle_task_failure cfg NeedsRollback task1 (str_exn e) w1
      | (Some (task1, None), w1) \<Rightarrow> run_claimed cfg task1 worker_id w1)"

text \<open>
  \<^verbatim>\<open>process_task\<close>: the query of lines 97 to 100, then the rest. When the query itself
  raises, the \<^verbatim>\<open>except\<close> clause evaluates the local \<^verbatim>\<open>task\<close> before it was ever
  assigned, which raises \<^verbatim>\<open>UnboundLocalError\<close> out of \<^verbatim>\<open>process_task\<close>.
\<close>

definition process_task :: "Settings \<Rightarrow> int \<Rightarrow> int \<Rightarrow> world \<Rightarrow> exn option \<times> world" where
  "process_task cfg task_id worker_id w =
     (case select_task task_id w of
        (Inl e, w1) \<Rightarrow> (Some (UnboundLocalError ''task''), w1)
      | (Inr loaded, w1) \<Rightarrow> process_loaded cfg loaded worker_id w1)"

text \<open>
  One iteration of the loop of \<^verbatim>\<open>worker\<close>: an empty queue times the \<^verbatim>\<open>get\<close> out after
  five seconds; an exception out of \<^verbatim>\<open>process_task\<close> is printed and dropped.
\<close>

definition worker_iteration :: "Settings \<Rightarrow> int \<Rightarrow> world \<Rightarrow> world" where
  "worker_iteration cfg worker_id w =
     (case task_queue w of
        [] \<Rightarrow> sleep 5000 w
      | k # q \<Rightarrow>
          snd (process_task cfg k worker_id (w\<lparr>task_queue := q, journal := journal w @ [Get k]\<rparr>)))"

text \<open>The loop runs until the pool is stopped: \<^verbatim>\<open>n\<close> iterations before that happens.\<close>

fun worker :: "Settings \<Rightarrow> int \<Rightarrow> nat \<Rightarrow> world \<Rightarrow> world" where
  "worker cfg worker_id 0 w = w"
| "worker cfg worker_id (Suc n) w = worker cfg worker_id n (worker_iteration cfg worker_id w)"

section \<open>Fetcher (app/worker.py, fetch_pending_tasks)\<close>

fun put_all :: "Task list \<Rightarrow> world \<Rightarrow> world" where
  "put_all [] w = w"
| "put_all (task # tasks) w = put_all tasks (put (id' task) w)"

text \<open>One pass of the loop: the query, the puts, then the pause (one second, or five after an error).\<close>

definition fetch_pass :: "Settings \<Rightarrow> world \<Rightarrow> world" where
  "fetch_pass cfg w =
     (case select_pending (WORKER_POOL_SIZE cfg * 2) w of
        (Inl e, w1) \<Rightarrow> sleep 5000 w1
      | (Inr tasks, w1) \<Rightarrow> sleep 1000 (put_all tasks w1))"

fun fetch_pending_tasks :: "Settings \<Rightarrow> nat \<Rightarrow> world \<Rightarrow> world" where
  "fetch_pending_tasks cfg 0 w = w"
| "fetch_pending_tasks cfg (Suc n) w = fetch_pending_tasks cfg n (fetch_pass cfg w)"

section \<open>HTTP layer (app/main.py): submit_task and delete_task\<close>

text \<open>
  \<^verbatim>\<open>submit_task\<close>: the request body is a task type and a payload dict. The insert and
  the refresh that follows are one store call each; an exception of either is answered
  with status 500.
\<close>

definition submit_task :: "string \<Rightarrow> (string \<times> json) list \<Rightarrow> world \<Rightarrow> (exn + Task) \<times> world" where
  "submit_task ty p w =
     (case commit_insert ty (json_dumps (JObj p)) PENDING w of
        (Inl e, w1) \<Rightarrow> (Inl (HTTPException 500 (''Failed to create task: '' @ str_exn e)), w1)
      | (Inr new_task, w1) \<Rightarrow>
          (case round_trip w1 of
             (Some m, w2) \<Rightarrow> (Inl (HTTPException 500 (''Failed to create task: '' @ m)), w2)
           | (None, w2) \<Rightarrow> (Inr new_task, w2)))"

text \<open>
  \<^verbatim>\<open>delete_task\<close>: the result is the exception raised (an \<^verbatim>\<open>HTTPException\<close>, or the
  store's own) or the message of the answer.
\<close>

definition delete_task :: "int \<Rightarrow> world \<Rightarrow> (exn + string) \<times> world" where
  "delete_task task_id w =
     (case select_task task_id w of
        (Inl e, w1) \<Rightarrow> (Inl e, w1)
      | (Inr None, w1) \<Rightarrow> (Inl (HTTPException 404 ''Task not found''), w1)
      | (Inr (Some task), w1) \<Rightarrow>
          if status task \<in> set [PENDING, PROCESSING] then
            (Inl (HTTPException 400 ''Cannot delete task that is pending or processing''), w1)
          else
            (case commit_delete task w1 of
               (Some e, w2) \<Rightarrow> (Inl e, w2)
             | (None, w2) \<Rightarrow> (Inr (''Task '' @ str_int task_id @ '' deleted successfully''), w2)))"

text \<open>
  \<^verbatim>\<open>n\<close> calls of \<^verbatim>\<open>process_task\<close> for one identifier, one after the other: what the
  workers do when they dequeue the identifier \<^verbatim>\<open>n\<close> times and nothing else touches the
  store or the queue in between.
\<close>

definition attempts :: "Settings \<Rightarrow> int \<Rightarrow> int \<Rightarrow> nat \<Rightarrow> world \<Rightarrow> world" where
  "attempts cfg task_id worker_id n = (\<lambda>w. snd (process_task cfg task_id worker_id w)) ^^ n"

section \<open>Invariants of a stored task\<close>






section \<open>Example worlds\<close>

text \<open>
  The row \<^verbatim>\<open>submit_task\<close> creates for \<^verbatim>\<open>{"task_type": "email", "payload": {"email":
  "a@b.com"}}\<close> in an empty store, and the world that holds it.
\<close>

definition empty_world :: world where
  "empty_world = \<lparr>rows = [], next_id = 1, task_queue = [], clock = 0, outages = [], journal = []\<rparr>"

definition email_task :: Task where
  "email_task =
     \<lparr>id' = 1, task_type = ''email'', payload = JsonText (JObj [(''email'', JStr ''a@b.com'')]),
      status = PENDING, result = None, error_message = None, retry_count = 0,
      created_at = 0, updated_at = 0, completed_at = None\<rparr>"

definition email_world :: world where
  "email_world = \<lparr>rows = [email_task], next_id = 2, task_queue = [], clock = 0, outages = [], journal = []\<rparr>"

text \<open>A row whose payload text is not JSON: its handler raises on every attempt.\<close>

definition decode_error :: string where
  "decode_error = ''Expecting value: line 1 column 1 (char 0)''"

definition broken_task :: Task where
  "broken_task = email_task\<lparr>payload := NotJson decode_error\<rparr>"

definition broken_world :: world where
  "broken_world = email_world\<lparr>rows := [broken_task]\<rparr>"

text \<open>
  The first attempt on that row, stopped at two places: when the handler has just raised
  (the task is claimed), and right after line 165 (the failure is stored as \<^verbatim>\<open>RETRYING\<close>,
  the delay has passed and the identifier is on the queue).
\<close>

definition claimed_task :: Task where
  "claimed_task = broken_task\<lparr>status := PROCESSING\<rparr>"

definition claimed_world :: world where
  "claimed_world = broken_world\<lparr>rows := [claimed_task], journal := [Commit claimed_task]\<rparr>"

definition requeued_task :: Task where
  "requeued_task =
     claimed_task\<lparr>retry_count := 1, error_message := Some decode_error, status := RETRYING\<rparr>"

definition requeued_world :: world where
  "requeued_world =
     claimed_world\<lparr>rows := [requeued_task], task_queue := [1], clock := 5000,
       journal := [Commit claimed_task, Commit requeued_task, Sleep 5000, Put 1]\<rparr>"

text \<open>The e-mail row as a worker's claim leaves it, and as the two runs of it complete it.\<close>

definition processing_task :: Task where
  "processing_task = email_task\<lparr>status := PROCESSING\<rparr>"

definition completed_task :: "nat \<Rightarrow> Task" where
  "completed_task now =
     processing_task\<lparr>status := COMPLETED,
       result := Some (JsonText (JObj [(''status'', JStr ''email_sent''), (''to'', JStr ''a@b.com'')])),
       completed_at := Some now, updated_at := now\<rparr>"

section \<open>Basic facts\<close>

lemmas example_defs =
  email_world_def email_task_def broken_world_def broken_task_def claimed_task_def
  claimed_world_def requeued_task_def requeued_world_def processing_task_def completed_task_def
  settings_def

lemmas engine_defs =
  process_task_def process_loaded_def claim_task_def run_claimed_def handle_task_failure_def
  record_failure_def retry_requeue_def retry_reset_def execute_task_def select_task_def
  commit_def round_trip_def lookup_def write_back_def sleep_def put_def utcnow_def json_dumps_def
  Let_def

lemma str_int_1: "str_int 1 = ''1''"
  by code_simp

lemma lookup_id: "lookup k rs = Some t \<Longrightarrow> id' t = k"
  unfolding lookup_def by (induction rs) (auto split: if_splits)

lemma round_trip_idle: "outages w = [] \<Longrightarrow> round_trip w = (None, w)"
  by (simp add: round_trip_def)

lemma round_trip_up: "outages w = None # rest \<Longrightarrow> round_trip w = (None, w\<lparr>outages := rest\<rparr>)"
  by (simp add: round_trip_def)

lemma round_trip_down: "outages w = Some m # rest \<Longrightarrow> round_trip w = (Some m, w\<lparr>outages := rest\<rparr>)"
  by (simp add: round_trip_def)

lemma select_task_idle: "outages w = [] \<Longrightarrow> select_task k w = (Inr (lookup k (rows w)), w)"
  by (simp add: select_task_def round_trip_idle)

lemma commit_idle:
  "outages w = [] \<Longrightarrow> lookup (id' t) (rows w) \<noteq> None \<Longrightarrow>
   commit t w = (None, w\<lparr>rows := write_back t (rows w), journal := journal w @ [Commit t]\<rparr>)"
  by (auto simp add: commit_def round_trip_idle)

lemma lookup_write_back_present:
  "(lookup k (write_back t rs) = None) = (lookup k rs = None)"
  unfolding lookup_def write_back_def by (induction rs) auto

lemma lookup_write_back:
  "lookup k rs = Some t \<Longrightarrow> id' t' = k \<Longrightarrow> lookup k (write_back t' rs) = Some t'"
  unfolding lookup_def write_back_def by (induction rs) (auto split: if_splits)

lemma lookup_write_back_other:
  "id' t' \<noteq> k \<Longrightarrow> lookup k (write_back t' rs) = lookup k rs"
  unfolding lookup_def write_back_def by (induction rs) auto

lemma write_back_twice:
  "id' t2 = id' t1 \<Longrightarrow> write_back t2 (write_back t1 rs) = write_back t2 rs"
  unfolding write_back_def by (induction rs) auto

lemma set_write_back: "set (write_back t rs) \<subseteq> insert t (set rs)"
  unfolding write_back_def by auto


lemma commit_rows: "set (rows (snd (commit t w))) \<subseteq> insert t (set (rows w))"
  using set_write_back [of t "rows w"]
  by (auto simp add: commit_def round_trip_def split: list.splits option.splits)

lemma commit_row:
  "r \<in> set (rows (snd (commit t w))) \<Longrightarrow> r = t \<or> r \<in> set (rows w)"
  using commit_rows [of t w] by blast

lemma round_trip_frame:
  "rows (snd (round_trip w)) = rows w"
  "task_queue (snd (round_trip w)) = task_queue w"
  "journal (snd (round_trip w)) = journal w"
  "clock (snd (round_trip w)) = clock w"
  "next_id (snd (round_trip w)) = next_id w"
  by (simp_all add: round_trip_def split: list.splits)

text \<open>The handler's outcome depends on the type, the payload and the identifier only.\<close>

lemma execute_task_outcome:
  "payload t' = payload t \<Longrightarrow> task_type t' = task_type t \<Longrightarrow> id' t' = id' t \<Longrightarrow>
   fst (execute_task t' w') = fst (execute_task t w)"
  by (simp add: execute_task_def Let_def split: sum.splits)

lemma execute_task_frame:
  "rows (snd (execute_task t w)) = rows w"
  "task_queue (snd (execute_task t w)) = task_queue w"
  "outages (snd (execute_task t w)) = outages w"
  "next_id (snd (execute_task t w)) = next_id w"
  by (simp_all add: execute_task_def sleep_def Let_def split: sum.splits)


lemma put_all_frame:
  "rows (put_all ts w) = rows w"
  "task_queue (put_all ts w) = task_queue w @ map id' ts"
  by (induction ts arbitrary: w) (simp_all add: put_def)

lemma submit_task_email:
  "submit_task ''email'' [(''email'', JStr ''a@b.com'')] empty_world =
     (Inr email_task, email_world\<lparr>journal := [Insert email_task]\<rparr>)"
  by (simp add: submit_task_def commit_insert_def round_trip_def json_dumps_def utcnow_def
      empty_world_def email_world_def email_task_def Let_def)


section \<open>The retry controller when the store answers\<close>

lemma handle_task_failure_retry:
  assumes "outages w = []" and "retry_count task + 1 < MAX_RETRIES cfg"
    and "lookup (id' task) (rows w) \<noteq> None"
  shows "handle_task_failure cfg Active task err w =
    (None, w\<lparr>rows := write_back (task\<lparr>retry_count := retry_count task + 1, error_message := Some err,
                                     status := PENDING, updated_at := clock w + 1000 * RETRY_DELAY cfg\<rparr>) (rows w),
             task_queue := task_queue w @ [id' task],
             clock := clock w + 1000 * RETRY_DELAY cfg,
             journal := journal w @
               [Commit (task\<lparr>retry_count := retry_count task + 1, error_message := Some err,
                              updated_at := clock w, status := RETRYING\<rparr>),
                Sleep (1000 * RETRY_DELAY cfg), Put (id' task),
                Commit (task\<lparr>retry_count := retry_count task + 1, error_message := Some err,
                              status := PENDING, updated_at := clock w + 1000 * RETRY_DELAY cfg\<rparr>)]\<rparr>)"
  using assms
  by (simp add: handle_task_failure_def record_failure_def retry_requeue_def retry_reset_def
      commit_idle sleep_def put_def utcnow_def Let_def write_back_twice lookup_write_back_present)

lemma handle_task_failure_final:
  assumes "outages w = []" and "\<not> retry_count task + 1 < MAX_RETRIES cfg"
    and "lookup (id' task) (rows w) \<noteq> None"
  shows "handle_task_failure cfg Active task err w =
    (None, w\<lparr>rows := write_back (task\<lparr>retry_count := retry_count task + 1, error_message := Some err,
                                     updated_at := clock w, status := FAILED\<rparr>) (rows w),
             journal := journal w @
               [Commit (task\<lparr>retry_count := retry_count task + 1, error_message := Some err,
                              updated_at := clock w, status := FAILED\<rparr>)]\<rparr>)"
  using assms
  by (simp add: handle_task_failure_def record_failure_def commit_idle utcnow_def Let_def)

lemma handle_task_failure_stored:
  assumes "outages w = []" and "lookup (id' task) (rows w) = Some r"
  shows "\<exists>t'. lookup (id' task) (rows (snd (handle_task_failure cfg Active task err w))) = Some t' \<and>
           retry_count t' = retry_count task + 1 \<and> error_message t' = Some err \<and>
           result t' = result task \<and> completed_at t' = completed_at task \<and>
           status t' = (if retry_count task + 1 < MAX_RETRIES cfg then PENDING else FAILED)"
proof (cases "retry_count task + 1 < MAX_RETRIES cfg")
  case True
  have "lookup (id' task) (rows w) \<noteq> None" using assms(2) by simp
  from handle_task_failure_retry [OF assms(1) True this, of err] assms(2) True show ?thesis
    by (simp add: lookup_write_back)
next
  case False
  have "lookup (id' task) (rows w) \<noteq> None" using assms(2) by simp
  from handle_task_failure_final [OF assms(1) False this, of err] assms(2) False show ?thesis
    by (simp add: lookup_write_back)
qed

text \<open>One attempt whose handler raises, with the store answering every call.\<close>

lemma failing_attempt:
  assumes row: "lookup k (rows w) = Some t"
    and pending: "status t = PENDING"
    and idle: "outages w = []"
    and fails: "fst (execute_task t w0) = Inl e"
  shows "\<exists>t'. lookup k (rows (snd (process_task cfg k wid w))) = Some t' \<and>
           retry_count t' = retry_count t + 1 \<and> error_message t' = Some (str_exn e) \<and>
           payload t' = payload t \<and> task_type t' = task_type t \<and>
           result t' = result t \<and> completed_at t' = completed_at t \<and>
           outages (snd (process_task cfg k wid w)) = [] \<and>
           (if retry_count t + 1 < MAX_RETRIES cfg then
              status t' = PENDING \<and>
              task_queue (snd (process_task cfg k wid w)) = task_queue w @ [k] \<and>
              (\<exists>pre tr. journal (snd (process_task cfg k wid w)) =
                  pre @ [Commit tr, Sleep (1000 * RETRY_DELAY cfg), Put k, Commit t'] \<and>
                  status tr = RETRYING \<and> retry_count tr = retry_count t + 1)
            else
              status t' = FAILED \<and>
              task_queue (snd (process_task cfg k wid w)) = task_queue w)"
proof -
  let ?t1 = "t\<lparr>status := PROCESSING, updated_at := clock w\<rparr>"
  let ?w1 = "w\<lparr>rows := write_back ?t1 (rows w), journal := journal w @ [Commit ?t1]\<rparr>"
  have k: "id' t = k" using row by (rule lookup_id)
  have "fst (execute_task ?t1 ?w1) = Inl e"
    using fails execute_task_outcome [of ?t1 t ?w1 w0] by simp
  then obtain w2 where ex: "execute_task ?t1 ?w1 = (Inl e, w2)"
    by (cases "execute_task ?t1 ?w1") auto
  have run: "process_task cfg k wid w = handle_task_failure cfg Active ?t1 (str_exn e) w2"
    using row pending idle ex k
    by (simp add: process_task_def select_task_idle process_loaded_def claim_task_def
        run_claimed_def commit_idle utcnow_def Let_def)
  have w2: "outages w2 = []" "rows w2 = write_back ?t1 (rows w)" "task_queue w2 = task_queue w"
    using idle execute_task_frame [of ?t1 ?w1] ex by simp_all
  have here: "lookup (id' ?t1) (rows w2) \<noteq> None"
    using row k w2 by (simp add: lookup_write_back_present)
  show ?thesis
  proof (cases "retry_count t + 1 < MAX_RETRIES cfg")
    case True
    then have "retry_count ?t1 + 1 < MAX_RETRIES cfg" by simp
    from handle_task_failure_retry [OF w2(1) this here, of "str_exn e"] run True w2 k row
    show ?thesis
      by (simp add: write_back_twice lookup_write_back)
  next
    case False
    then have "\<not> retry_count ?t1 + 1 < MAX_RETRIES cfg" by simp
    from handle_task_failure_final [OF w2(1) this here, of "str_exn e"] run False w2 k row
    show ?thesis
      by (simp add: write_back_twice lookup_write_back)
  qed
qed

lemma attempts_Suc:
  "attempts cfg k wid (Suc n) w = snd (process_task cfg k wid (attempts cfg k wid n w))"
  by (simp add: attempts_def)

lemma attempts_pending:
  assumes row: "lookup k (rows w) = Some t"
    and pending: "status t = PENDING"
    and fresh: "retry_count t = 0"
    and idle: "outages w = []"
    and fails: "fst (execute_task t w) = Inl e"
    and n: "int n < MAX_RETRIES cfg \<or> n = 0"
  shows "\<exists>tn. lookup k (rows (attempts cfg k wid n w)) = Some tn \<and> status tn = PENDING \<and>
           retry_count tn = int n \<and> payload tn = payload t \<and> task_type tn = task_type t \<and>
           outages (attempts cfg k wid n w) = []"
  using n
proof (induction n)
  case 0
  with row pending fresh idle show ?case by (simp add: attempts_def)
next
  case (Suc n)
  then have "int n < MAX_RETRIES cfg \<or> n = 0" by auto
  with Suc.IH obtain tn where tn: "lookup k (rows (attempts cfg k wid n w)) = Some tn"
    "status tn = PENDING" "retry_count tn = int n" "payload tn = payload t"
    "task_type tn = task_type t" "outages (attempts cfg k wid n w) = []"
    by blast
  have "id' tn = id' t" using tn(1) row by (simp add: lookup_id)
  with tn fails have f: "fst (execute_task tn w) = Inl e"
    using execute_task_outcome [of tn t w w] by simp
  from Suc.prems have "retry_count tn + 1 < MAX_RETRIES cfg" using tn(3) by auto
  with failing_attempt [OF tn(1) tn(2) tn(6) f, of cfg wid] tn show ?case
    by (auto simp add: attempts_Suc)
qed

section \<open>Retry monotonicity\<close>

text \<open>
  C1. A task starts \<^verbatim>\<open>PENDING\<close> with \<^verbatim>\<open>retry_count\<close> 0, its handler raises, and the store
  answers every call. After the \<^verbatim>\<open>N\<close>-th failed attempt has been handled (each attempt
  up to the \<^verbatim>\<open>N\<close>-th does execute: \<^verbatim>\<open>N \<le> MAX_RETRIES\<close>, or \<^verbatim>\<open>N = 1\<close>), the stored
  \<^verbatim>\<open>retry_count\<close> is \<^verbatim>\<open>N\<close> and the stored status is \<^verbatim>\<open>FAILED\<close> exactly when
  \<^verbatim>\<open>N \<ge> MAX_RETRIES\<close>. Otherwise the attempt ends with these four effects: a commit of
  the task as \<^verbatim>\<open>RETRYING\<close> with \<^verbatim>\<open>retry_count\<close> \<^verbatim>\<open>N\<close>, the retry delay, the
  identifier put on the queue, and a commit of the task as \<^verbatim>\<open>PENDING\<close>; the task is
  stored \<^verbatim>\<open>PENDING\<close> and its identifier is the newest queue entry. A terminal failure
  enqueues nothing.
\<close>

theorem retry_monotonicity:
  assumes row: "lookup k (rows w) = Some t"
    and pending: "status t = PENDING"
    and fresh: "retry_count t = 0"
    and idle: "outages w = []"
    and fails: "fst (execute_task t w) = Inl e"
    and N: "0 < N" "int N \<le> MAX_RETRIES cfg \<or> N = 1"
  shows "\<exists>t'. lookup k (rows (attempts cfg k wid N w)) = Some t' \<and>
           retry_count t' = int N \<and>
           (status t' = FAILED \<longleftrightarrow> MAX_RETRIES cfg \<le> int N) \<and>
           (if int N < MAX_RETRIES cfg then
              status t' = PENDING \<and>
              task_queue (attempts cfg k wid N w) = task_queue (attempts cfg k wid (N - 1) w) @ [k] \<and>
              (\<exists>pre tr. journal (attempts cfg k wid N w) =
                  pre @ [Commit tr, Sleep (1000 * RETRY_DELAY cfg), Put k, Commit t'] \<and>
                  status tr = RETRYING \<and> retry_count tr = int N)
            else
              task_queue (attempts cfg k wid N w) = task_queue (attempts cfg k wid (N - 1) w))"
proof -
  from N(1) obtain m where m: "N = Suc m" by (cases N) auto
  with N(2) have "int m < MAX_RETRIES cfg \<or> m = 0" by auto
  from attempts_pending [OF row pending fresh idle fails this, of wid]
  obtain tm where tm: "lookup k (rows (attempts cfg k wid m w)) = Some tm"
    "status tm = PENDING" "retry_count tm = int m" "payload tm = payload t"
    "task_type tm = task_type t" "outages (attempts cfg k wid m w) = []"
    by blast
  have "id' tm = id' t" using tm(1) row by (simp add: lookup_id)
  with tm fails have f: "fst (execute_task tm w) = Inl e"
    using execute_task_outcome [of tm t w w] by simp
  from failing_attempt [OF tm(1) tm(2) tm(6) f, of cfg wid] tm(3) m
  show ?thesis
    by (auto simp add: attempts_Suc split: if_splits)
qed

theorem retry_monotonicity_witness:
  "(\<exists>t'. lookup 1 (rows (attempts settings 1 0 1 broken_world)) = Some t' \<and>
         retry_count t' = 1 \<and> status t' = PENDING \<and>
         task_queue (attempts settings 1 0 1 broken_world) = [1]) \<and>
   (\<exists>t'. lookup 1 (rows (attempts settings 1 0 3 broken_world)) = Some t' \<and>
         retry_count t' = 3 \<and> status t' = FAILED)"
proof -
  have a: "lookup 1 (rows broken_world) = Some broken_task"
    by (simp add: lookup_def broken_world_def broken_task_def email_world_def email_task_def)
  have b: "status broken_task = PENDING" "retry_count broken_task = 0" "outages broken_world = []"
    by (simp_all add: broken_world_def broken_task_def email_world_def email_task_def)
  have c: "fst (execute_task broken_task broken_world) = Inl (JSONDecodeError decode_error)"
    by (simp add: execute_task_def broken_task_def)
  have q: "task_queue (attempts settings 1 0 0 broken_world) = []"
    by (simp add: attempts_def broken_world_def email_world_def)
  from retry_monotonicity [OF a b c, of 1 settings 0] retry_monotonicity [OF a b c, of 3 settings 0] q
  show ?thesis
    by (auto simp add: settings_def)
qed

section \<open>The success path\<close>

text \<open>
  C6. A \<^verbatim>\<open>PENDING\<close> task of type \<^verbatim>\<open>"email"\<close> with payload \<^verbatim>\<open>{"email": "a@b.com"}\<close>, processed
  while the store answers every call, ends stored as \<^verbatim>\<open>COMPLETED\<close> with result
  \<^verbatim>\<open>{"status": "email_sent", "to": "a@b.com"}\<close> and its completion time stamped.
\<close>

theorem email_task_completes:
  assumes "lookup k (rows w) = Some t"
    and "status t = PENDING"
    and "task_type t = ''email''"
    and "payload t = json_dumps (JObj [(''email'', JStr ''a@b.com'')])"
    and "outages w = []"
  shows "\<exists>w' t'. process_task cfg k wid w = (None, w') \<and> lookup k (rows w') = Some t' \<and>
           status t' = COMPLETED \<and>
           result t' = Some (json_dumps (JObj [(''status'', JStr ''email_sent''), (''to'', JStr ''a@b.com'')])) \<and>
           completed_at t' = Some (clock w')"
proof -
  have k: "id' t = k" using assms(1) by (rule lookup_id)
  show ?thesis
    using assms k
    by (simp add: process_task_def select_task_idle process_loaded_def claim_task_def
        run_claimed_def commit_idle utcnow_def execute_task_def json_dumps_def sleep_def Let_def
        lookup_write_back write_back_twice lookup_write_back_present)
qed

theorem email_task_completes_witness:
  "\<exists>w' t'. process_task settings 1 0 email_world = (None, w') \<and> lookup 1 (rows w') = Some t' \<and>
           status t' = COMPLETED \<and>
           result t' = Some (json_dumps (JObj [(''status'', JStr ''email_sent''), (''to'', JStr ''a@b.com'')])) \<and>
           completed_at t' = Some (clock w')"
proof -
  have a: "lookup 1 (rows email_world) = Some email_task"
    by (simp add: lookup_def email_world_def email_task_def)
  have b: "status email_task = PENDING" "task_type email_task = ''email''"
    "payload email_task = json_dumps (JObj [(''email'', JStr ''a@b.com'')])"
    "outages email_world = []"
    by (simp_all add: email_task_def email_world_def json_dumps_def)
  from email_task_completes [OF a b] show ?thesis .
qed

section \<open>The fetcher\<close>

text \<open>
  C7. One poll pass appends to the queue only identifiers of rows that are \<^verbatim>\<open>PENDING\<close> in
  the table it queries, at most \<^verbatim>\<open>2 * pool_size\<close> of them, and leaves every row of the
  table as it was.
\<close>

theorem fetch_pass_enqueues_pending_only:
  "\<exists>ids. task_queue (fetch_pass cfg w) = task_queue w @ ids \<and>
         length ids \<le> nat (2 * WORKER_POOL_SIZE cfg) \<and>
         (\<forall>k \<in> set ids. \<exists>t \<in> set (rows w). id' t = k \<and> status t = PENDING) \<and>
         rows (fetch_pass cfg w) = rows w"
proof (cases "select_pending (WORKER_POOL_SIZE cfg * 2) w")
  case (Pair r w1)
  have w1: "w1 = snd (round_trip w)"
    using Pair by (auto simp add: select_pending_def split: prod.splits option.splits if_splits)
  show ?thesis
  proof (cases r)
    case (Inl e)
    with Pair w1 show ?thesis
      by (simp add: fetch_pass_def sleep_def round_trip_frame)
  next
    case (Inr tasks)
    have "rows w1 = rows w"
      unfolding w1 by (rule round_trip_frame)
    with Pair Inr have tasks:
      "tasks = take (nat (WORKER_POOL_SIZE cfg * 2)) (filter (\<lambda>r. status r = PENDING) (rows w))"
      by (auto simp add: select_pending_def split: prod.splits option.splits if_splits)
    have "set tasks \<subseteq> {t \<in> set (rows w). status t = PENDING}"
      unfolding tasks using set_take_subset by fastforce
    then have "\<forall>k \<in> set (map id' tasks). \<exists>t \<in> set (rows w). id' t = k \<and> status t = PENDING"
      by auto
    moreover have "length (map id' tasks) \<le> nat (2 * WORKER_POOL_SIZE cfg)"
      unfolding tasks by (simp add: mult.commute)
    moreover have "task_queue (fetch_pass cfg w) = task_queue w @ map id' tasks"
      "rows (fetch_pass cfg w) = rows w"
      using Pair Inr w1 by (simp_all add: fetch_pass_def sleep_def put_all_frame round_trip_frame)
    ultimately show ?thesis by blast
  qed
qed

theorem fetch_pass_enqueues_pending_only_witness:
  "task_queue (fetch_pass settings email_world) = [1] \<and>
   rows (fetch_pass settings email_world) = rows email_world"
proof -
  from fetch_pass_enqueues_pending_only [of settings email_world]
  obtain ids where ids: "task_queue (fetch_pass settings email_world) = task_queue email_world @ ids"
    "rows (fetch_pass settings email_world) = rows email_world"
    by blast
  have "task_queue (fetch_pass settings email_world) = [1]"
    by (simp add: fetch_pass_def select_pending_def round_trip_def settings_def email_world_def
        email_task_def sleep_def put_def)
  with ids show ?thesis by simp
qed

section \<open>Stale dispatch entries\<close>

text \<open>
  C8. When the query for a dequeued identifier returns no row, or a row whose status is
  not \<^verbatim>\<open>PENDING\<close>, \<^verbatim>\<open>process_task\<close> returns without an exception and without any
  effect: the table, the queue, the journal of effects and the clock are as they were.
\<close>

theorem stale_entry_discarded:
  assumes "select_task k w = (Inr loaded, w1)"
    and "case loaded of None \<Rightarrow> True | Some t \<Rightarrow> status t \<noteq> PENDING"
  shows "process_task cfg k wid w = (None, w1) \<and> rows w1 = rows w \<and>
         task_queue w1 = task_queue w \<and> journal w1 = journal w \<and> clock w1 = clock w"
proof -
  have "process_loaded cfg loaded wid w1 = (None, w1)"
    using assms(2) by (simp add: process_loaded_def claim_task_def split: option.splits)
  then have "process_task cfg k wid w = (None, w1)"
    using assms(1) by (simp add: process_task_def)
  moreover have "w1 = snd (round_trip w)"
    using assms(1) by (auto simp add: select_task_def split: prod.splits option.splits)
  ultimately show ?thesis
    by (simp add: round_trip_frame)
qed

theorem stale_entry_discarded_witness:
  "process_task settings 1 0 (email_world\<lparr>rows := [email_task\<lparr>status := PROCESSING\<rparr>]\<rparr>) =
     (None, email_world\<lparr>rows := [email_task\<lparr>status := PROCESSING\<rparr>]\<rparr>) \<and>
   process_task settings 2 0 email_world = (None, email_world)"
proof -
  let ?w = "email_world\<lparr>rows := [email_task\<lparr>status := PROCESSING\<rparr>]\<rparr>"
  have a: "select_task 1 ?w = (Inr (Some (email_task\<lparr>status := PROCESSING\<rparr>)), ?w)"
    by (simp add: select_task_def round_trip_def lookup_def email_world_def email_task_def)
  have b: "select_task 2 email_world = (Inr None, email_world)"
    by (simp add: select_task_def round_trip_def lookup_def email_world_def email_task_def)
  from stale_entry_discarded [OF a, of settings 0] stale_entry_discarded [OF b, of settings 0]
  show ?thesis by simp
qed

section \<open>The order of the re-enqueue and the return to PENDING\<close>

text \<open>
  C3 asks that, on a retryable failure, the status goes back to \<^verbatim>\<open>PENDING\<close> and is stored
  before the identifier is put on the queue. The code does it the other way round (line
  165 before lines 168 and 169). For the row whose payload is not JSON, with the default
  settings: the first attempt ends in \<^verbatim>\<open>handle_task_failure\<close>; right after its
  \<^verbatim>\<open>task_queue.put\<close> the identifier is on the queue while the stored status is
  \<^verbatim>\<open>RETRYING\<close>; only the commit that follows stores \<^verbatim>\<open>PENDING\<close>. A second worker that
  takes the identifier off the queue in between finds the row \<^verbatim>\<open>RETRYING\<close> and drops
  the entry.
\<close>

theorem requeue_while_still_retrying:
  "process_task settings 1 0 broken_world =
     handle_task_failure settings Active claimed_task decode_error claimed_world \<and>
   retry_requeue settings (record_failure claimed_task decode_error claimed_world) claimed_world =
     (Inr requeued_task, requeued_world) \<and>
   task_queue requeued_world = [1] \<and>
   map status (rows requeued_world) = [RETRYING] \<and>
   handle_task_failure settings Active claimed_task decode_error claimed_world =
     retry_reset requeued_task requeued_world \<and>
   map status (rows (snd (retry_reset requeued_task requeued_world))) = [PENDING] \<and>
   process_task settings 1 1 (requeued_world\<lparr>task_queue := []\<rparr>) =
     (None, requeued_world\<lparr>task_queue := []\<rparr>)"
  by (simp add: example_defs engine_defs)

section \<open>Two workers and one task\<close>

text \<open>
  C5 asks that of two workers racing to claim one task exactly one succeeds. The code
  checks the status on the copy its query returned and then writes \<^verbatim>\<open>PROCESSING\<close>
  unconditionally. Two workers hold the same identifier (the fetcher enqueues a
  \<^verbatim>\<open>PENDING\<close> task on every pass) and both run their query before either commits its
  claim: the query leaves the world as it is and answers both with the \<^verbatim>\<open>PENDING\<close> row;
  the first claim succeeds, and so does the second; both workers then run the handler
  and both store \<^verbatim>\<open>COMPLETED\<close>.
\<close>

theorem two_workers_claim_one_task:
  "select_task 1 email_world = (Inr (Some email_task), email_world) \<and>
   claim_task (Some email_task) email_world =
     (Some (processing_task, None),
      email_world\<lparr>rows := [processing_task], journal := [Commit processing_task]\<rparr>) \<and>
   claim_task (Some email_task)
       (email_world\<lparr>rows := [processing_task], journal := [Commit processing_task]\<rparr>) =
     (Some (processing_task, None),
      email_world\<lparr>rows := [processing_task],
        journal := [Commit processing_task, Commit processing_task]\<rparr>) \<and>
   journal (snd (run_claimed settings processing_task 1
             (snd (run_claimed settings processing_task 0
                (email_world\<lparr>rows := [processing_task],
                   journal := [Commit processing_task, Commit processing_task]\<rparr>))))) =
     [Commit processing_task, Commit processing_task,
      Sleep 100, Commit (completed_task 100), Sleep 100, Commit (completed_task 200)]"
  by (simp add: example_defs engine_defs)

section \<open>Deleting tasks\<close>

text \<open>
  \<^verbatim>\<open>delete_task\<close> refuses a task that is \<^verbatim>\<open>PENDING\<close> or \<^verbatim>\<open>PROCESSING\<close> and leaves the
  table as it was.
\<close>

lemma delete_task_rejects_active:
  assumes "select_task k w = (Inr (Some t), w1)"
    and "status t = PENDING \<or> status t = PROCESSING"
  shows "delete_task k w =
           (Inl (HTTPException 400 ''Cannot delete task that is pending or processing''), w1) \<and>
         rows w1 = rows w"
proof -
  have "w1 = snd (round_trip w)"
    using assms(1) by (auto simp add: select_task_def split: prod.splits option.splits)
  then show ?thesis
    using assms by (auto simp add: delete_task_def round_trip_frame)
qed

text \<open>
  C9 asks that a \<^verbatim>\<open>RETRYING\<close> task is refused as well, and the docstring of
  \<^verbatim>\<open>delete_task\<close> says "only if completed or failed". The code tests for \<^verbatim>\<open>PENDING\<close> and
  \<^verbatim>\<open>PROCESSING\<close> only: the row that is stored \<^verbatim>\<open>RETRYING\<close> during the retry delay is
  deleted.
\<close>

theorem delete_task_removes_retrying:
  "map status (rows requeued_world) = [RETRYING] \<and>
   delete_task 1 requeued_world =
     (Inr ''Task 1 deleted successfully'',
      requeued_world\<lparr>rows := [], journal := journal requeued_world @ [Delete 1]\<rparr>)"
  by (simp add: example_defs engine_defs delete_task_def commit_delete_def str_int_1)

section \<open>What one attempt writes\<close>



















section \<open>Store errors inside process_task\<close>



section \<open>The completion time\<close>



section \<open>Result and error message\<close>




end
